theory Spec2Isabelle
  imports
    Main
    "HOL-Library.Char_ord"
    "HOL-Library.List_Lexorder"
    "HOL-Library.Product_Lexorder"
    "HOL-Library.AList"
    "HOL-Library.Sublist"
    "HOL-Library.Multiset"
begin

section \<open>Strings\<close>

text \<open>
  Python strings are modelled as \<^typ>\<open>string\<close>, one \<^typ>\<open>char\<close> per character: the model
  covers ASCII text. The order on strings is the lexicographic order by character code,
  which is Python's order on \<open>str\<close>.
\<close>

text \<open>\<open>str.isspace\<close> on ASCII: tab, line feed, vertical tab, form feed, carriage return,
  the separators 28 to 31, and the space.\<close>

definition is_space :: "char \<Rightarrow> bool" where
  "is_space c = (let n = (of_char c :: nat) in (9 \<le> n \<and> n \<le> 13) \<or> (28 \<le> n \<and> n \<le> 32))"

text \<open>\<open>s.strip()\<close>: white space removed at both ends.\<close>

definition strip :: "string \<Rightarrow> string" where
  "strip s = rev (dropWhile is_space (rev (dropWhile is_space s)))"

text \<open>\<open>s.split(c)\<close> with an explicit separator: the empty string gives one empty piece,
  and every separator starts a new piece.\<close>

fun split_on :: "char \<Rightarrow> string \<Rightarrow> string list" where
  "split_on c [] = [[]]"
| "split_on c (x # xs) =
     (if x = c then [] # split_on c xs
      else (case split_on c xs of [] \<Rightarrow> [[x]] | w # ws \<Rightarrow> (x # w) # ws))"

text \<open>\<open>sep.join(xs)\<close>.\<close>

fun join :: "string \<Rightarrow> string list \<Rightarrow> string" where
  "join sep [] = []"
| "join sep [x] = x"
| "join sep (x # y # ys) = x @ sep @ join sep (y # ys)"

text \<open>\<open>html.escape(s)\<close> with its default \<open>quote=True\<close>: the ampersand is replaced first,
  so the replacement is character by character.\<close>

definition escape_char :: "char \<Rightarrow> string" where
  "escape_char c =
     (if c = CHR ''&'' then ''&amp;''
      else if c = CHR ''<'' then ''&lt;''
      else if c = CHR ''>'' then ''&gt;''
      else if c = CHR 0x22 then ''&quot;''
      else if c = CHR 0x27 then ''&#x27;''
      else [c])"

definition escape :: "string \<Rightarrow> string" where
  "escape s = concat (map escape_char s)"

text \<open>\<open>s.lower()\<close> on ASCII.\<close>

definition lower_char :: "char \<Rightarrow> char" where
  "lower_char c =
     (case map_of (zip ''ABCDEFGHIJKLMNOPQRSTUVWXYZ'' ''abcdefghijklmnopqrstuvwxyz'') c of
        Some l \<Rightarrow> l
      | None \<Rightarrow> c)"

definition lower :: "string \<Rightarrow> string" where
  "lower s = map lower_char s"

text \<open>\<open>created.replace('Z', '+00:00')\<close>: every \<open>Z\<close> is replaced.\<close>

definition replace_Z :: "string \<Rightarrow> string" where
  "replace_Z s = concat (map (\<lambda>c. if c = CHR ''Z'' then ''+00:00'' else [c]) s)"

text \<open>The decimal text of an integer, as an f-string prints it.\<close>

definition digit_char :: "nat \<Rightarrow> char" where
  "digit_char d = ''0123456789'' ! d"

function str_nat :: "nat \<Rightarrow> string" where
  "str_nat n =
     (if n < 10 then [digit_char n]
      else str_nat (n div 10) @ [digit_char (n mod 10)])"
  by pat_completeness auto
termination
  by (relation "measure (\<lambda>n. n)") auto

declare str_nat.simps [simp del]

definition str_int :: "int \<Rightarrow> string" where
  "str_int i = (if i < 0 then CHR ''-'' # str_nat (nat (- i)) else str_nat (nat i))"

text \<open>\<open>"    " * level\<close>.\<close>

definition indent :: "nat \<Rightarrow> string" where
  "indent level = concat (replicate level ''    '')"


section \<open>Rows, errors and bookmark entries\<close>

text \<open>
  A cell of the table read by pandas is a string or missing (\<open>NaN\<close>, for which
  \<open>pd.notna\<close> is false). The table is modelled with columns of strings; \<open>columns\<close>
  lists the column names that the table has, and a row carries the cells of the four
  columns the program reads (the cell of a column that the table lacks is never read:
  the access raises \<open>KeyError\<close> first).
\<close>

datatype cell = NaN | Str string

record row =
  title :: cell
  url :: cell
  folder :: cell
  created :: cell

record dataframe =
  columns :: "string list"
  rows :: "row list"

text \<open>The exceptions that the run can raise, each with the text of \<open>str(e)\<close>.\<close>

datatype error =
    AttributeError string
  | KeyError string
  | ReadError string
  | WriteError string

text \<open>
  \<open>create_bookmark_html\<close>. Two things come from outside the program and are parameters:
  \<open>parse s\<close> stands for \<open>int(datetime.fromisoformat(s).timestamp())\<close>, with \<open>None\<close> when
  that raises \<open>ValueError\<close>, and \<open>now\<close> is the value of \<open>int(datetime.now().timestamp())\<close>
  at this call. \<open>title\<close> and \<open>url\<close> are cells: \<open>html.escape\<close> of a missing cell (a float)
  raises \<open>AttributeError\<close>, which this function does not catch. \<open>add_date_of\<close> is the
  \<open>if created\<close> block with its \<open>try\<close>, and \<open>entry_line\<close> is the f-string of the \<open>return\<close>.
\<close>

definition float_has_no_replace :: string where
  "float_has_no_replace =
     CHR 0x27 # ''float'' @ CHR 0x27 # '' object has no attribute '' @ CHR 0x27 # ''replace'' @ [CHR 0x27]"

definition add_date_of :: "(string \<Rightarrow> int option) \<Rightarrow> int \<Rightarrow> string option \<Rightarrow> int" where
  "add_date_of parse now created' =
     (case created' of
        None \<Rightarrow> now
      | Some c \<Rightarrow>
          if c = [] then now
          else (case parse (replace_Z c) of Some t \<Rightarrow> t | None \<Rightarrow> now))"

definition entry_line :: "string \<Rightarrow> int \<Rightarrow> string \<Rightarrow> string" where
  \<open>entry_line u add_date t =
     ''<DT><A HREF="'' @ escape u @ ''" ADD_DATE="'' @ str_int add_date @ ''">'' @ escape t @ ''</A>''\<close>

definition create_bookmark_html ::
  "(string \<Rightarrow> int option) \<Rightarrow> int \<Rightarrow> cell \<Rightarrow> cell \<Rightarrow> string option \<Rightarrow> error + string" where
  "create_bookmark_html parse now title' url' created' =
     (let add_date = add_date_of parse now created' in
      case url' of
        NaN \<Rightarrow> Inl (AttributeError float_has_no_replace)
      | Str u \<Rightarrow>
          (case title' of
             NaN \<Rightarrow> Inl (AttributeError float_has_no_replace)
           | Str t \<Rightarrow> Inr (entry_line u add_date t)))"

text \<open>
  A timestamp parser to run the program on concrete rows. It covers the strings of the
  form \<open>YYYY-MM-DD?HH:MM:SS+HH:MM\<close> (any separator character between date and time, an
  offset with either sign), which is what an export's \<open>...Z\<close> timestamps become after
  \<open>replace_Z\<close>, and gives their epoch seconds; it rejects every other string. The
  functions of the program take the parser as a parameter, and the general statements
  below hold for every parser.
\<close>

definition digit_val :: "char \<Rightarrow> nat option" where
  "digit_val c =
     (let n = (of_char c :: nat) in if 48 \<le> n \<and> n \<le> 57 then Some (n - 48) else None)"

fun number_of :: "nat \<Rightarrow> string \<Rightarrow> nat option" where
  "number_of acc [] = Some acc"
| "number_of acc (c # cs) =
     (case digit_val c of None \<Rightarrow> None | Some d \<Rightarrow> number_of (10 * acc + d) cs)"

definition field :: "nat \<Rightarrow> nat \<Rightarrow> string \<Rightarrow> nat option" where
  "field start len s = number_of 0 (take len (drop start s))"

definition is_leap :: "nat \<Rightarrow> bool" where
  "is_leap y = (if y mod 400 = 0 then True else if y mod 100 = 0 then False else y mod 4 = 0)"

definition days_in_month :: "nat \<Rightarrow> nat \<Rightarrow> nat" where
  "days_in_month y m =
     (if m = 2 then (if is_leap y then 29 else 28)
      else if m = 4 \<or> m = 6 \<or> m = 9 \<or> m = 11 then 30 else 31)"

text \<open>Days from 1970-01-01 to the given date of the proleptic Gregorian calendar.\<close>

definition days_from_civil :: "nat \<Rightarrow> nat \<Rightarrow> nat \<Rightarrow> int" where
  "days_from_civil y m d =
     (let y' = (if m \<le> 2 then int y - 1 else int y);
          era = y' div 400;
          yoe = y' - era * 400;
          mp = (if m > 2 then int m - 3 else int m + 9);
          doy = (153 * mp + 2) div 5 + int d - 1;
          doe = yoe * 365 + yoe div 4 - yoe div 100 + doy
      in era * 146097 + doe - 719468)"

definition iso_timestamp :: "string \<Rightarrow> int option" where
  "iso_timestamp s =
     (if length s = 25 \<and> s ! 4 = CHR ''-'' \<and> s ! 7 = CHR ''-'' \<and> s ! 13 = CHR '':''
         \<and> s ! 16 = CHR '':'' \<and> (s ! 19 = CHR ''+'' \<or> s ! 19 = CHR ''-'') \<and> s ! 22 = CHR '':''
      then
        (case (field 0 4 s, field 5 2 s, field 8 2 s, field 11 2 s, field 14 2 s, field 17 2 s,
               field 20 2 s, field 23 2 s) of
           (Some y, Some m, Some d, Some hh, Some mm, Some ss, Some oh, Some om) \<Rightarrow>
             if 1 \<le> y \<and> 1 \<le> m \<and> m \<le> 12 \<and> 1 \<le> d \<and> d \<le> days_in_month y m
                \<and> hh < 24 \<and> mm < 60 \<and> ss < 60 \<and> oh < 24 \<and> om < 60
             then
               (let local = days_from_civil y m d * 86400 + int (hh * 3600 + mm * 60 + ss);
                    offset = int (oh * 3600 + om * 60)
                in Some (if s ! 19 = CHR ''+'' then local - offset else local + offset))
             else None
         | _ \<Rightarrow> None)
      else None)"


section \<open>The folder tree\<close>

text \<open>
  \<open>BookmarkFolder\<close>: \<open>subfolders\<close> is a Python dict, which keeps its keys in insertion
  order; it is an association list here, because \<open>sorted\<close> is stable and so the order of
  the dict shows in the output.
\<close>

datatype bookmark_folder =
  BookmarkFolder (name: string) (subfolders: "(string \<times> bookmark_folder) list")
    (bookmarks: "string list")

text \<open>
  The walk of \<open>add_to_folder_structure\<close> along the folder names, and the final append.
  The source moves a pointer down the tree and mutates the nodes in place; every node has
  one parent, so the same tree is obtained by rebuilding the nodes on the way.
  \<open>AList.update\<close> replaces the value of a key that is present, at its position, and
  appends a new key at the end, as a dict assignment does.
\<close>

fun add_at_path :: "string list \<Rightarrow> string \<Rightarrow> bookmark_folder \<Rightarrow> bookmark_folder" where
  "add_at_path [] b (BookmarkFolder n subs bms) = BookmarkFolder n subs (bms @ [b])"
| "add_at_path (f # fs) b (BookmarkFolder n subs bms) =
     (let child = (case map_of subs f of None \<Rightarrow> BookmarkFolder f [] [] | Some c \<Rightarrow> c)
      in BookmarkFolder n (AList.update f (add_at_path fs b child) subs) bms)"

text \<open>The folder names of a folder cell: none when the cell is missing or empty
  (\<open>if folder_path and pd.notna(folder_path)\<close>), else the stripped pieces.\<close>

definition folder_names :: "cell \<Rightarrow> string list" where
  "folder_names folder_path =
     (case folder_path of
        NaN \<Rightarrow> []
      | Str s \<Rightarrow> if s = [] then [] else map strip (split_on CHR ''/'' s))"

definition add_to_folder_structure :: "bookmark_folder \<Rightarrow> cell \<Rightarrow> string \<Rightarrow> bookmark_folder" where
  "add_to_folder_structure root folder_path bookmark_html =
     add_at_path (folder_names folder_path) bookmark_html root"

text \<open>
  \<open>sort_values('folder', na_position='last')\<close>: ascending by the folder string, rows
  without one last. The key is a pair whose first component is true for a missing cell.
  The sort of pandas (quicksort by default) is not stable: the order in which it leaves
  rows with equal keys is not determined by the program and is a parameter here. The
  numbers \<open>ties\<close> pick an arrangement of the rows (\<open>arrange\<close>: each number picks the next
  row among those that remain), and the rows so arranged are sorted by a stable sort.
  Every order of the rows that is ascending by key arises from some \<open>ties\<close>
  (\<open>sorted_order_is_sort_values\<close> below).
\<close>

definition folder_key :: "row \<Rightarrow> bool \<times> string" where
  "folder_key r = (case folder r of NaN \<Rightarrow> (True, []) | Str s \<Rightarrow> (False, s))"

fun arrange :: "nat list \<Rightarrow> 'a list \<Rightarrow> 'a list" where
  "arrange [] xs = xs"
| "arrange (k # ks) [] = []"
| "arrange (k # ks) (x # xs) =
     (let i = k mod length (x # xs)
      in (x # xs) ! i # arrange ks (take i (x # xs) @ drop (Suc i) (x # xs)))"

definition sort_values :: "nat list \<Rightarrow> row list \<Rightarrow> row list" where
  "sort_values ties rs = sort_key folder_key (arrange ties rs)"

definition opt_of_cell :: "cell \<Rightarrow> string option" where
  "opt_of_cell c = (case c of NaN \<Rightarrow> None | Str s \<Rightarrow> Some s)"

text \<open>The call of \<open>create_bookmark_html\<close> in the loop body, with its three arguments.\<close>

definition row_bookmark :: "(string \<Rightarrow> int option) \<Rightarrow> int \<Rightarrow> row \<Rightarrow> error + string" where
  "row_bookmark parse now r =
     create_bookmark_html parse now
       (if title r \<noteq> NaN then title r else url r)
       (url r)
       (if created r \<noteq> NaN then opt_of_cell (created r) else None)"

text \<open>
  The loop over the rows. \<open>clock i\<close> is the reading of the clock while the \<open>i\<close>-th row of
  the loop (in the order after the sort) is processed. \<open>row['title']\<close>, \<open>row['url']\<close> and \<open>row['created']\<close> are read in
  this order and raise \<open>KeyError\<close> for a column that the table lacks.
\<close>

fun add_rows ::
  "(string \<Rightarrow> int option) \<Rightarrow> (nat \<Rightarrow> int) \<Rightarrow> string list \<Rightarrow> nat \<Rightarrow> bookmark_folder \<Rightarrow> row list
     \<Rightarrow> error + bookmark_folder" where
  "add_rows parse clock cols i root [] = Inr root"
| "add_rows parse clock cols i root (r # rs) =
     (if ''title'' \<notin> set cols then Inl (KeyError ''title'')
      else if ''url'' \<notin> set cols then Inl (KeyError ''url'')
      else if ''created'' \<notin> set cols then Inl (KeyError ''created'')
      else (case row_bookmark parse (clock i) r of
              Inl e \<Rightarrow> Inl e
            | Inr h \<Rightarrow>
                add_rows parse clock cols (Suc i) (add_to_folder_structure root (folder r) h) rs))"

definition create_folder_structure ::
  "(string \<Rightarrow> int option) \<Rightarrow> (nat \<Rightarrow> int) \<Rightarrow> nat list \<Rightarrow> dataframe
     \<Rightarrow> error + bookmark_folder" where
  "create_folder_structure parse clock ties df =
     (if ''folder'' \<notin> set (columns df) then Inl (KeyError ''folder'')
      else add_rows parse clock (columns df) 0 (BookmarkFolder ''root'' [] [])
             (sort_values ties (rows df)))"


section \<open>The renderer\<close>

text \<open>
  \<open>generate_folder_html\<close>. The header and the closing line are emitted when the name of
  the folder is not \<open>root\<close>. \<open>sorted\<close> is a stable sort, and so is \<open>sort_key\<close>.
\<close>

function generate_folder_html :: "bookmark_folder \<Rightarrow> nat \<Rightarrow> string list" where
  "generate_folder_html (BookmarkFolder n subs bms) level =
     (let content1 =
            (if n \<noteq> ''root''
             then [indent level @ ''<DT><H3>'' @ escape n @ ''</H3>'', indent level @ ''<DL><p>'']
             else []);
          level' = (if n \<noteq> ''root'' then level + 1 else level);
          content2 = content1 @ map (\<lambda>bookmark. indent level' @ bookmark) bms;
          content3 = content2 @
            concat (map (\<lambda>subfolder. generate_folder_html subfolder level')
                      (sort_key (\<lambda>x. lower (name x)) (map snd subs)))
      in if n \<noteq> ''root'' then content3 @ [indent (level' - 1) @ ''</DL><p>''] else content3)"
  by pat_completeness auto
termination
proof (relation "measure (\<lambda>(f, l). size f)", goal_cases)
  case 1
  show ?case by simp
next
  case (2 n subs bms level x xa xb xc)
  have smaller: "(k, c) \<in> set kcs \<Longrightarrow> size c < Suc (size_list (size_prod (\<lambda>_. 0) size) kcs)"
    for k :: string and c :: bookmark_folder and kcs
    by (induction kcs) auto
  from 2 obtain k where "(k, xc) \<in> set subs" by auto
  then show ?case using smaller [of k xc subs] by simp
qed

declare generate_folder_html.simps [simp del]

text \<open>\<open>generate_bookmarks_html\<close>: the header is one string of eight lines.\<close>

definition header :: string where
  \<open>header =
     ''<!DOCTYPE NETSCAPE-Bookmark-file-1>'' @ [CHR 0x0A] @
     ''<!-- This is an automatically generated file.'' @ [CHR 0x0A] @
     ''     It will be read and overwritten.'' @ [CHR 0x0A] @
     ''     DO NOT EDIT! -->'' @ [CHR 0x0A] @
     ''<META HTTP-EQUIV="Content-Type" CONTENT="text/html; charset=UTF-8">'' @ [CHR 0x0A] @
     ''<TITLE>Bookmarks</TITLE>'' @ [CHR 0x0A] @
     ''<H1>Bookmarks</H1>'' @ [CHR 0x0A] @
     ''<DL><p>''\<close>

definition footer :: string where
  "footer = ''</DL><p>''"

definition generate_bookmarks_html :: "bookmark_folder \<Rightarrow> string" where
  "generate_bookmarks_html root_folder =
     join [CHR 0x0A] ([header] @ generate_folder_html root_folder 0 @ [footer])"


section \<open>The conversion run\<close>

text \<open>\<open>count_folders\<close>, the local function of the run.\<close>

fun count_folders :: "bookmark_folder \<Rightarrow> nat" where
  "count_folders (BookmarkFolder n subs bms) =
     length subs + sum_list (map (\<lambda>(k, subfolder). count_folders subfolder) subs)"

text \<open>
  The world outside the program: what \<open>pd.read_csv\<close> returns or raises for a path, what
  writing a text to a path raises if it fails, the timestamp parser, the clock, and the
  order in which the sort of pandas leaves rows with equal keys.
\<close>

record world =
  read_csv :: "string \<Rightarrow> error + dataframe"
  write_file :: "string \<Rightarrow> string \<Rightarrow> error option"
  fromisoformat :: "string \<Rightarrow> int option"
  wall_clock :: "nat \<Rightarrow> int"
  tie_order :: "nat list"

text \<open>\<open>str(e)\<close>: a \<open>KeyError\<close> prints its key quoted, the others print their message.\<close>

definition str_error :: "error \<Rightarrow> string" where
  "str_error e =
     (case e of
        AttributeError m \<Rightarrow> m
      | KeyError k \<Rightarrow> CHR 0x27 # k @ [CHR 0x27]
      | ReadError m \<Rightarrow> m
      | WriteError m \<Rightarrow> m)"

text \<open>The body of the \<open>try\<close> block: the lines it prints and the text it wrote, or the
  exception that left it.\<close>

definition convert_body :: "world \<Rightarrow> string \<Rightarrow> string \<Rightarrow> error + (string list \<times> string)" where
  "convert_body w input_csv output_file =
     (case read_csv w input_csv of
        Inl e \<Rightarrow> Inl e
      | Inr df \<Rightarrow>
          (case create_folder_structure (fromisoformat w) (wall_clock w) (tie_order w) df of
             Inl e \<Rightarrow> Inl e
           | Inr root_folder \<Rightarrow>
               (let bookmarks_html = generate_bookmarks_html root_folder in
                case write_file w output_file bookmarks_html of
                  Some e \<Rightarrow> Inl e
                | None \<Rightarrow>
                    (let total_folders = count_folders root_folder in
                     Inr ([''Successfully converted bookmarks to '' @ output_file,
                           ''Total bookmarks processed: '' @ str_int (int (length (rows df))),
                           ''Number of folders: '' @ str_int (int total_folders)],
                          bookmarks_html)))))"

text \<open>
  \<open>convert_raindrop_to_browser_bookmarks\<close>: the result is what the call leaves behind.
  \<open>Inl e\<close> would be an exception that reaches the caller; \<open>Inr\<close> is a normal return with
  the lines printed and, when the write completed, the text written to the output file
  (\<open>None\<close> says nothing about what a failed write left in the file).
\<close>

record outcome =
  printed :: "string list"
  written :: "string option"

definition convert_raindrop_to_browser_bookmarks ::
  "world \<Rightarrow> string \<Rightarrow> string \<Rightarrow> error + outcome" where
  "convert_raindrop_to_browser_bookmarks w input_csv output_file =
     (case convert_body w input_csv output_file of
        Inr (lines, text) \<Rightarrow> Inr \<lparr>printed = lines, written = Some text\<rparr>
      | Inl e \<Rightarrow>
          Inr \<lparr>printed = [''Error converting bookmarks: '' @ str_error e], written = None\<rparr>)"


section \<open>Notions used to state the properties\<close>

text \<open>The node that a sequence of folder names leads to from a node, if there is one.\<close>

fun folder_at :: "string list \<Rightarrow> bookmark_folder \<Rightarrow> bookmark_folder option" where
  "folder_at [] t = Some t"
| "folder_at (f # fs) t =
     (case map_of (subfolders t) f of None \<Rightarrow> None | Some c \<Rightarrow> folder_at fs c)"

definition entries_at :: "string list \<Rightarrow> bookmark_folder \<Rightarrow> string list option" where
  "entries_at p t = map_option bookmarks (folder_at p t)"

text \<open>
  The invariant of the trees that the builder makes: the keys of every dict are distinct,
  every child is stored under its own name, and every entry satisfies \<open>P\<close>.
\<close>

fun tree_inv :: "(string \<Rightarrow> bool) \<Rightarrow> bookmark_folder \<Rightarrow> bool" where
  "tree_inv P (BookmarkFolder n subs bms) =
     (distinct (map fst subs) \<and> list_all P bms \<and>
      list_all (\<lambda>kc. name (snd kc) = fst kc \<and> tree_inv P (snd kc)) subs)"

text \<open>The entry line of a row, and the entry lines of the rows of a list whose folder
  names are \<open>p\<close>, in the order of the list; the \<open>k\<close>-th row reads the clock at \<open>i + k\<close>.\<close>

definition the_entry :: "(string \<Rightarrow> int option) \<Rightarrow> int \<Rightarrow> row \<Rightarrow> string" where
  "the_entry parse now r = (case row_bookmark parse now r of Inl e \<Rightarrow> [] | Inr h \<Rightarrow> h)"

fun entries_for ::
  "(string \<Rightarrow> int option) \<Rightarrow> (nat \<Rightarrow> int) \<Rightarrow> nat \<Rightarrow> row list \<Rightarrow> string list \<Rightarrow> string list" where
  "entries_for parse clock i [] p = []"
| "entries_for parse clock i (r # rs) p =
     (if folder_names (folder r) = p then [the_entry parse (clock i) r] else [])
     @ entries_for parse clock (Suc i) rs p"

text \<open>The exception that the loop over the rows raises, if it raises one.\<close>

definition rows_error :: "string list \<Rightarrow> row list \<Rightarrow> error option" where
  "rows_error cols rs =
     (if rs = [] then None
      else if ''title'' \<notin> set cols then Some (KeyError ''title'')
      else if ''url'' \<notin> set cols then Some (KeyError ''url'')
      else if ''created'' \<notin> set cols then Some (KeyError ''created'')
      else if list_ex (\<lambda>r. url r = NaN) rs then Some (AttributeError float_has_no_replace)
      else None)"

text \<open>
  The builder of the specification's design note: \<open>create_folder_structure\<close> without the
  call of \<open>sort_values\<close>, so that the rows are processed in the order of the table.
\<close>

definition create_folder_structure_unsorted ::
  "(string \<Rightarrow> int option) \<Rightarrow> (nat \<Rightarrow> int) \<Rightarrow> dataframe \<Rightarrow> error + bookmark_folder" where
  "create_folder_structure_unsorted parse clock df =
     (if ''folder'' \<notin> set (columns df) then Inl (KeyError ''folder'')
      else add_rows parse clock (columns df) 0 (BookmarkFolder ''root'' [] []) (rows df))"


text \<open>The paths of the nodes below a node, child by child.\<close>

fun folder_paths :: "bookmark_folder \<Rightarrow> string list list" where
  "folder_paths (BookmarkFolder n subs bms) =
     concat (map (\<lambda>kc. [fst kc] # map ((#) (fst kc)) (folder_paths (snd kc))) subs)"

text \<open>The number of lines of a text that contain a tag, and the sum of these numbers
  over a list of texts.\<close>

definition lines_with :: "string \<Rightarrow> string \<Rightarrow> nat" where
  "lines_with tag text = length (filter (sublist tag) (split_on (CHR 0x0A) text))"

definition tagged :: "string \<Rightarrow> string list \<Rightarrow> nat" where
  "tagged tag xs = sum_list (map (lines_with tag) xs)"


section \<open>Evaluation on concrete inputs\<close>

lemmas iso_defs = iso_timestamp_def replace_Z_def field_def digit_val_def days_in_month_def
  days_from_civil_def is_leap_def

lemmas build_defs = create_folder_structure_def sort_values_def row_bookmark_def
  create_bookmark_html_def add_date_of_def opt_of_cell_def add_to_folder_structure_def
  folder_names_def strip_def is_space_def folder_key_def

lemmas text_defs = entry_line_def escape_def escape_char_def str_int_def str_nat.simps
  digit_char_def indent_def lower_def lower_char_def


section \<open>The order of the rows after the sort\<close>

lemma arrange_Nil [simp]: "arrange ks [] = []"
  by (cases ks) simp_all

lemma arrange_single [simp]: "arrange ks [x] = [x]"
  by (cases ks) simp_all

lemma mset_arrange [simp]: "mset (arrange ks xs) = mset xs"
proof (induction ks xs rule: arrange.induct)
  case (3 k ks x xs)
  define ys where "ys = x # xs"
  define i where "i = k mod length ys"
  define rest where "rest = take i ys @ drop (Suc i) ys"
  have a: "arrange (k # ks) (x # xs) = ys ! i # arrange ks rest"
    unfolding ys_def i_def rest_def by (simp only: arrange.simps Let_def)
  have ih: "mset (arrange ks rest) = mset rest"
    unfolding ys_def i_def rest_def by (rule "3.IH" [OF refl])
  have i: "i < length ys"
    unfolding i_def ys_def by simp
  have "mset ys = mset (take i ys @ ys ! i # drop (Suc i) ys)"
    by (rule arg_cong [OF id_take_nth_drop [OF i]])
  also have "\<dots> = add_mset (ys ! i) (mset rest)"
    unfolding rest_def by simp
  finally have "mset (ys ! i # arrange ks rest) = mset ys"
    using ih by simp
  then show ?case
    unfolding a ys_def .
qed simp_all

lemma mset_sort_values [simp]: "mset (sort_values ties rs) = mset rs"
  by (simp add: sort_values_def)

lemma set_sort_values [simp]: "set (sort_values ties rs) = set rs"
  using mset_sort_values [of ties rs] by (metis set_mset_mset)

lemma sort_values_single [simp]: "sort_values ties [r] = [r]"
  by (simp add: sort_values_def)

text \<open>Two rows of one folder: with \<open>ties = [1]\<close> the sort leaves them in the other order.\<close>

lemma sort_values_swaps_a_tie:
  "sort_values [1]
     [\<lparr>title = Str ''one'', url = Str ''http://a'', folder = Str ''X'', created = NaN\<rparr>,
      \<lparr>title = Str ''two'', url = Str ''http://b'', folder = Str ''X'', created = NaN\<rparr>]
   = [\<lparr>title = Str ''two'', url = Str ''http://b'', folder = Str ''X'', created = NaN\<rparr>,
      \<lparr>title = Str ''one'', url = Str ''http://a'', folder = Str ''X'', created = NaN\<rparr>]"
  by (simp add: sort_values_def folder_key_def)

lemma every_order_is_an_arrangement: "mset ys = mset xs \<Longrightarrow> \<exists>ks. arrange ks xs = ys"
proof (induction ys arbitrary: xs)
  case Nil
  then have "arrange [] xs = []" by simp
  then show ?case ..
next
  case (Cons y ys)
  then have "y \<in> set xs" by (metis list.set_intros(1) set_mset_mset)
  then obtain i where i: "i < length xs" "xs ! i = y" by (auto simp: in_set_conv_nth)
  let ?rest = "take i xs @ drop (Suc i) xs"
  have "mset xs = add_mset y (mset ?rest)"
    using id_take_nth_drop [OF i(1)] i(2) by (metis mset.simps(2) mset_append union_mset_add_mset_right)
  with Cons.prems have "mset ys = mset ?rest" by simp
  from Cons.IH [OF this] obtain ks where ks: "arrange ks ?rest = ys" ..
  from i obtain x xs' where xs: "xs = x # xs'" by (cases xs) auto
  have "arrange (i # ks) xs = y # ys"
    using i ks unfolding xs by (simp add: Let_def)
  then show ?case ..
qed

lemma sorted_order_is_sort_values:
  assumes "mset ys = mset rs" and "sorted (map folder_key ys)"
  shows "\<exists>ties. sort_values ties rs = ys"
proof -
  from every_order_is_an_arrangement [OF assms(1)] obtain ks where "arrange ks rs = ys" ..
  with assms(2) have "sort_values ks rs = ys"
    by (simp add: sort_values_def sort_key_id_if_sorted)
  then show ?thesis ..
qed


section \<open>The tree that the builder makes\<close>

lemma entries_at_Nil [simp]: "entries_at [] t = Some (bookmarks t)"
  by (simp add: entries_at_def)

lemma entries_at_Cons:
  "entries_at (f # fs) t =
     (case map_of (subfolders t) f of None \<Rightarrow> None | Some c \<Rightarrow> entries_at fs c)"
  by (simp add: entries_at_def split: option.splits)

lemma entries_at_fresh:
  "entries_at p (BookmarkFolder f [] []) = (if p = [] then Some [] else None)"
  by (cases p) (simp_all add: entries_at_Cons)

lemma entries_at_add:
  "entries_at p (add_at_path q b t) =
     (if p = q then Some (case entries_at p t of None \<Rightarrow> [b] | Some bs \<Rightarrow> bs @ [b])
      else if prefix p q then Some (case entries_at p t of None \<Rightarrow> [] | Some bs \<Rightarrow> bs)
      else entries_at p t)"
proof (induction q b t arbitrary: p rule: add_at_path.induct)
  case (1 b n subs bms)
  then show ?case by (cases p) (simp_all add: entries_at_Cons)
next
  case (2 f fs b n subs bms)
  show ?case
  proof (cases p)
    case Nil
    then show ?thesis by simp
  next
    case (Cons g gs)
    show ?thesis
    proof (cases "g = f")
      case False
      with Cons show ?thesis
        by (simp add: entries_at_Cons update_conv' Let_def)
    next
      case True
      with Cons 2 [of _ gs] show ?thesis
        by (auto simp add: entries_at_Cons update_conv' Let_def entries_at_fresh
            split: option.splits)
    qed
  qed
qed

lemma list_all_update:
  "list_all Q al \<Longrightarrow> Q (k, v) \<Longrightarrow> list_all Q (AList.update k v al)"
  by (induction al) auto

lemma name_add_at_path [simp]: "name (add_at_path q b t) = name t"
  by (cases t; cases q) (simp_all add: Let_def)

lemma tree_inv_add:
  "tree_inv P t \<Longrightarrow> P b \<Longrightarrow> tree_inv P (add_at_path q b t)"
proof (induction q b t rule: add_at_path.induct)
  case (1 b n subs bms)
  then show ?case by simp
next
  case (2 f fs b n subs bms)
  let ?child = "case map_of subs f of None \<Rightarrow> BookmarkFolder f [] [] | Some c \<Rightarrow> c"
  have child: "name ?child = f \<and> tree_inv P ?child"
  proof (cases "map_of subs f")
    case None
    then show ?thesis by simp
  next
    case (Some c)
    then have "(f, c) \<in> set subs" by (rule map_of_SomeD)
    with "2.prems" Some show ?thesis by (auto simp: list_all_iff)
  qed
  with 2 have "tree_inv P (add_at_path fs b ?child)" by simp
  with child "2.prems" show ?case
    by (simp add: Let_def distinct_update list_all_update)
qed


lemma row_bookmark_cases:
  "row_bookmark parse now r =
     (case url r of
        NaN \<Rightarrow> Inl (AttributeError float_has_no_replace)
      | Str u \<Rightarrow>
          Inr (entry_line u (add_date_of parse now (opt_of_cell (created r)))
                 (case title r of NaN \<Rightarrow> u | Str t \<Rightarrow> t)))"
  by (auto simp: row_bookmark_def create_bookmark_html_def opt_of_cell_def add_date_of_def
           split: cell.splits)

lemma add_rows_result:
  "(case add_rows parse clock cols i root rs of
      Inl e \<Rightarrow> rows_error cols rs = Some e
    | Inr t \<Rightarrow> rows_error cols rs = None)"
proof (induction rs arbitrary: i root)
  case Nil
  then show ?case by (simp add: rows_error_def)
next
  case (Cons r rs)
  show ?case
  proof (cases "url r")
    case NaN
    then show ?thesis by (simp add: rows_error_def row_bookmark_cases)
  next
    case (Str u)
    let ?root = "add_to_folder_structure root (folder r)
        (entry_line u (add_date_of parse (clock i) (opt_of_cell (created r)))
           (case title r of NaN \<Rightarrow> u | Str t \<Rightarrow> t))"
    from Cons [of "Suc i" ?root] Str show ?thesis
      by (cases rs) (auto simp: rows_error_def row_bookmark_cases split: sum.splits if_splits)
  qed
qed

lemma add_rows_entries:
  "add_rows parse clock cols i root rs = Inr t \<Longrightarrow>
   entries_at p t =
     (case entries_at p root of
        Some bs \<Rightarrow> Some (bs @ entries_for parse clock i rs p)
      | None \<Rightarrow>
          if list_ex (\<lambda>r. prefix p (folder_names (folder r))) rs
          then Some (entries_for parse clock i rs p) else None)"
proof (induction rs arbitrary: i root)
  case Nil
  then show ?case by (simp split: option.splits)
next
  case (Cons r rs)
  from Cons.prems obtain h where h: "row_bookmark parse (clock i) r = Inr h"
    and rest: "add_rows parse clock cols (Suc i) (add_to_folder_structure root (folder r) h) rs = Inr t"
    by (auto split: if_splits sum.splits)
  from h have e: "the_entry parse (clock i) r = h" by (simp add: the_entry_def)
  show ?case
    unfolding Cons.IH [OF rest]
    by (auto simp: add_to_folder_structure_def entries_at_add e split: option.splits)
qed

lemma add_rows_inv:
  "add_rows parse clock cols i root rs = Inr t \<Longrightarrow> tree_inv P root \<Longrightarrow>
   (\<And>now r h. row_bookmark parse now r = Inr h \<Longrightarrow> P h) \<Longrightarrow> tree_inv P t"
proof (induction rs arbitrary: i root)
  case Nil
  then show ?case by simp
next
  case (Cons r rs)
  from Cons.prems(1) obtain h where h: "row_bookmark parse (clock i) r = Inr h"
    and rest: "add_rows parse clock cols (Suc i) (add_to_folder_structure root (folder r) h) rs = Inr t"
    by (auto split: if_splits sum.splits)
  from h Cons.prems(3) have "P h" by blast
  with Cons.prems(2) have "tree_inv P (add_to_folder_structure root (folder r) h)"
    by (simp add: add_to_folder_structure_def tree_inv_add)
  from Cons.IH [OF rest this] Cons.prems(3) show ?case by blast
qed

lemma child_name:
  "tree_inv P t \<Longrightarrow> folder_at [k] t = Some c \<Longrightarrow> name c = k"
  by (cases t) (auto simp: list_all_iff split: option.splits dest!: map_of_SomeD)


lemma built_entries:
  assumes "create_folder_structure parse clock ties df = Inr t"
  shows "entries_at p t =
           (if p = [] \<or> list_ex (\<lambda>r. prefix p (folder_names (folder r))) (rows df)
            then Some (entries_for parse clock 0 (sort_values ties (rows df)) p) else None)"
proof -
  from assms have "add_rows parse clock (columns df) 0 (BookmarkFolder ''root'' [] [])
      (sort_values ties (rows df)) = Inr t"
    by (simp add: create_folder_structure_def split: if_splits)
  from add_rows_entries [OF this, of p] show ?thesis
    by (auto simp: entries_at_fresh list_ex_iff)
qed

lemma built_inv:
  assumes "create_folder_structure parse clock ties df = Inr t"
  shows "tree_inv (\<lambda>b. \<exists>u d x. b = entry_line u d x) t"
proof -
  from assms have "add_rows parse clock (columns df) 0 (BookmarkFolder ''root'' [] [])
      (sort_values ties (rows df)) = Inr t"
    by (simp add: create_folder_structure_def split: if_splits)
  then show ?thesis
  proof (rule add_rows_inv)
    show "tree_inv (\<lambda>b. \<exists>u d x. b = entry_line u d x) (BookmarkFolder ''root'' [] [])"
      by simp
  next
    fix now r h
    assume "row_bookmark parse now r = Inr h"
    then show "\<exists>u d x. h = entry_line u d x"
      by (auto simp: row_bookmark_cases split: cell.splits)
  qed
qed

lemma names_X: "folder_names (Str ''X'') = [''X'']" "folder_names (Str ''x'') = [''x'']"
  by (simp_all add: folder_names_def strip_def is_space_def)

lemma split_on_absent: "c \<notin> set s \<Longrightarrow> split_on c s = [s]"
  by (induction s) auto




lemma mset_entries_for:
  "mset (entries_for parse (\<lambda>_. now) i rs p) =
     image_mset (the_entry parse now) (filter_mset (\<lambda>r. folder_names (folder r) = p) (mset rs))"
  by (induction rs arbitrary: i) auto

lemma rows_error_sort: "rows_error cols (sort_values ties rs) = rows_error cols rs"
proof -
  have "sort_values ties rs = [] \<longleftrightarrow> rs = []"
    using mset_sort_values [of ties rs] by (metis mset_zero_iff)
  then show ?thesis by (simp add: rows_error_def list_ex_iff)
qed


section \<open>The folder tree builder\<close>

text \<open>
  Claim C1, as amended. The folder names are matched by equality of strings, so the paths
  \<open>X\<close> and \<open>x\<close> lead to two nodes: when a table has a row with the folder path \<open>X\<close> and
  a row with the folder path \<open>x\<close>, the tree has a child \<open>X\<close> and a child \<open>x\<close> of the root,
  two nodes with these two names; the first holds the entries of exactly the rows whose
  folder names are \<open>X\<close>, the second those of exactly the rows whose folder names are \<open>x\<close>,
  each in the order in which the rows are processed, whatever order the sort leaves rows
  of equal folder in.
\<close>

theorem paths_X_and_x_are_two_nodes:
  assumes built: "create_folder_structure parse clock ties df = Inr t"
    and rX: "rX \<in> set (rows df)" "folder rX = Str ''X''"
    and rx: "rx \<in> set (rows df)" "folder rx = Str ''x''"
  shows "\<exists>a b. folder_at [''X''] t = Some a \<and> folder_at [''x''] t = Some b
           \<and> name a = ''X'' \<and> name b = ''x''
           \<and> bookmarks a = entries_for parse clock 0 (sort_values ties (rows df)) [''X'']
           \<and> bookmarks b = entries_for parse clock 0 (sort_values ties (rows df)) [''x'']"
proof -
  from rX have "list_ex (\<lambda>r. prefix [''X''] (folder_names (folder r))) (rows df)"
    by (auto simp: list_ex_iff names_X intro!: bexI [of _ rX])
  with built_entries [OF built, of "[''X'']"]
  obtain a where a: "folder_at [''X''] t = Some a"
    "bookmarks a = entries_for parse clock 0 (sort_values ties (rows df)) [''X'']"
    by (auto simp: entries_at_def)
  from rx have "list_ex (\<lambda>r. prefix [''x''] (folder_names (folder r))) (rows df)"
    by (auto simp: list_ex_iff names_X intro!: bexI [of _ rx])
  with built_entries [OF built, of "[''x'']"]
  obtain b where b: "folder_at [''x''] t = Some b"
    "bookmarks b = entries_for parse clock 0 (sort_values ties (rows df)) [''x'']"
    by (auto simp: entries_at_def)
  from built_inv [OF built] a(1) b(1) have "name a = ''X''" "name b = ''x''"
    by (auto dest: child_name)
  with a b show ?thesis by blast
qed

theorem paths_X_and_x_are_two_nodes_witness:
  "(let df = \<lparr>columns = [''title'', ''url'', ''folder'', ''created''],
      rows = [\<lparr>title = Str ''one'', url = Str ''http://a'', folder = Str ''X'', created = NaN\<rparr>,
              \<lparr>title = Str ''two'', url = Str ''http://b'', folder = Str ''x'', created = NaN\<rparr>]\<rparr>;
        t = BookmarkFolder ''root''
       [(''X'', BookmarkFolder ''X'' [] [entry_line ''http://a'' 1700000000 ''one'']),
        (''x'', BookmarkFolder ''x'' [] [entry_line ''http://b'' 1700000000 ''two''])] []
    in create_folder_structure iso_timestamp (\<lambda>i. 1700000000) [] df = Inr t
       \<and> (\<exists>a b. folder_at [''X''] t = Some a \<and> folder_at [''x''] t = Some b
           \<and> name a = ''X'' \<and> name b = ''x''
           \<and> bookmarks a = [entry_line ''http://a'' 1700000000 ''one'']
           \<and> bookmarks b = [entry_line ''http://b'' 1700000000 ''two'']))"
  using paths_X_and_x_are_two_nodes [of iso_timestamp "\<lambda>i. 1700000000" "[]"
     "\<lparr>columns = [''title'', ''url'', ''folder'', ''created''],
      rows = [\<lparr>title = Str ''one'', url = Str ''http://a'', folder = Str ''X'', created = NaN\<rparr>,
              \<lparr>title = Str ''two'', url = Str ''http://b'', folder = Str ''x'', created = NaN\<rparr>]\<rparr>"
     "BookmarkFolder ''root''
       [(''X'', BookmarkFolder ''X'' [] [entry_line ''http://a'' 1700000000 ''one'']),
        (''x'', BookmarkFolder ''x'' [] [entry_line ''http://b'' 1700000000 ''two''])] []"
     "\<lparr>title = Str ''one'', url = Str ''http://a'', folder = Str ''X'', created = NaN\<rparr>"
     "\<lparr>title = Str ''two'', url = Str ''http://b'', folder = Str ''x'', created = NaN\<rparr>"]
  by (simp add: build_defs the_entry_def)

text \<open>
  Claim C1 as stated fails: the table with the two rows of folder paths \<open>X\<close> and \<open>x\<close>
  gives a root with two children, each with one of the two entries. (The two keys of the
  sort differ, so there are no ties.)
\<close>

theorem build_X_and_x_gives_two_nodes:
  "create_folder_structure iso_timestamp (\<lambda>i. 1700000000) []
     \<lparr>columns = [''title'', ''url'', ''folder'', ''created''],
      rows = [\<lparr>title = Str ''one'', url = Str ''http://a'', folder = Str ''X'', created = NaN\<rparr>,
              \<lparr>title = Str ''two'', url = Str ''http://b'', folder = Str ''x'', created = NaN\<rparr>]\<rparr>
   = Inr (BookmarkFolder ''root''
       [(''X'', BookmarkFolder ''X'' [] [entry_line ''http://a'' 1700000000 ''one'']),
        (''x'', BookmarkFolder ''x'' [] [entry_line ''http://b'' 1700000000 ''two''])] [])"
  by (simp add: build_defs)




text \<open>
  Claim C7, as amended. With a clock that stands still during the run, building after the
  pre-sort (whatever order it leaves rows of equal folder in) and building in the order
  of the table fail with the same exception or give
  trees with the same folders, each of which holds the same entries as a multiset. The
  order of the entries of a folder, and the order of sibling folders whose names are
  equal up to case, depend on the order of processing, and with them the document text.
\<close>

theorem presort_keeps_folders_and_entries:
  "rel_sum (=)
     (\<lambda>t t'. \<forall>p. map_option mset (entries_at p t) = map_option mset (entries_at p t'))
     (create_folder_structure parse (\<lambda>_. now) ties df)
     (create_folder_structure_unsorted parse (\<lambda>_. now) df)"
proof (cases "''folder'' \<in> set (columns df)")
  case False
  then show ?thesis
    by (simp add: create_folder_structure_def create_folder_structure_unsorted_def)
next
  case True
  let ?root = "BookmarkFolder ''root'' [] []"
  let ?a = "add_rows parse (\<lambda>_. now) (columns df) 0 ?root (sort_values ties (rows df))"
  let ?b = "add_rows parse (\<lambda>_. now) (columns df) 0 ?root (rows df)"
  have a: "create_folder_structure parse (\<lambda>_. now) ties df = ?a"
    and b: "create_folder_structure_unsorted parse (\<lambda>_. now) df = ?b"
    using True by (simp_all add: create_folder_structure_def create_folder_structure_unsorted_def)
  note ra = add_rows_result [where parse = parse and clock = "\<lambda>_. now" and cols = "columns df"
      and i = 0 and root = ?root and rs = "sort_values ties (rows df)"]
  note rb = add_rows_result [where parse = parse and clock = "\<lambda>_. now" and cols = "columns df"
      and i = 0 and root = ?root and rs = "rows df"]
  show ?thesis
  proof (cases "rows_error (columns df) (rows df)")
    case (Some e)
    with ra rb have "?a = Inl e" "?b = Inl e"
      by (auto simp: rows_error_sort split: sum.splits)
    then show ?thesis by (simp add: a b)
  next
    case None
    with ra rb obtain t t' where t: "?a = Inr t" and t': "?b = Inr t'"
      by (auto simp: rows_error_sort split: sum.splits)
    have "map_option mset (entries_at p t) = map_option mset (entries_at p t')" for p
      unfolding add_rows_entries [OF t] add_rows_entries [OF t']
      by (simp add: entries_at_fresh mset_entries_for list_ex_iff)
    then show ?thesis by (simp add: a b t t')
  qed
qed

text \<open>
  Claim C7 as stated fails: for the table with a row of folder \<open>x\<close> followed by a row of
  folder \<open>X\<close>, the pre-sort puts the row of \<open>X\<close> first and \<open>X\<close> is rendered before \<open>x\<close>;
  in the order of the table \<open>x\<close> is rendered before \<open>X\<close> (the renderer sorts by the
  lowercased name, which is the same for both, and keeps the order of the dict). The two
  keys of the pre-sort differ, so there are no ties.
\<close>

theorem presort_changes_sibling_order:
  \<open>map_sum id (\<lambda>t. generate_folder_html t 0)
     (create_folder_structure iso_timestamp (\<lambda>i. 1700000000) []
       \<lparr>columns = [''title'', ''url'', ''folder'', ''created''],
        rows = [\<lparr>title = Str ''two'', url = Str ''http://b'', folder = Str ''x'', created = NaN\<rparr>,
                \<lparr>title = Str ''one'', url = Str ''http://a'', folder = Str ''X'', created = NaN\<rparr>]\<rparr>)
    = Inr [''<DT><H3>X</H3>'',
           ''<DL><p>'',
           ''    <DT><A HREF="http://a" ADD_DATE="1700000000">one</A>'',
           ''</DL><p>'',
           ''<DT><H3>x</H3>'',
           ''<DL><p>'',
           ''    <DT><A HREF="http://b" ADD_DATE="1700000000">two</A>'',
           ''</DL><p>'']
   \<and> map_sum id (\<lambda>t. generate_folder_html t 0)
     (create_folder_structure_unsorted iso_timestamp (\<lambda>i. 1700000000)
       \<lparr>columns = [''title'', ''url'', ''folder'', ''created''],
        rows = [\<lparr>title = Str ''two'', url = Str ''http://b'', folder = Str ''x'', created = NaN\<rparr>,
                \<lparr>title = Str ''one'', url = Str ''http://a'', folder = Str ''X'', created = NaN\<rparr>]\<rparr>)
    = Inr [''<DT><H3>x</H3>'',
           ''<DL><p>'',
           ''    <DT><A HREF="http://b" ADD_DATE="1700000000">two</A>'',
           ''</DL><p>'',
           ''<DT><H3>X</H3>'',
           ''<DL><p>'',
           ''    <DT><A HREF="http://a" ADD_DATE="1700000000">one</A>'',
           ''</DL><p>'']\<close>
  by (simp add: build_defs create_folder_structure_unsorted_def generate_folder_html.simps text_defs)


section \<open>The record normalizer\<close>

text \<open>
  Claim C2, as amended. A row whose title is missing (\<open>NaN\<close>, which is also what pandas
  reads from an empty cell) gets its url as title: the entry line carries the escaped url
  both as link target and as visible text. The source tests the title with \<open>pd.notna\<close>
  only, so a title of white space is a title like any other and is kept.
\<close>

theorem missing_title_falls_back_to_url:
  assumes "title r = NaN" and "url r = Str u"
  shows "row_bookmark parse now r =
           Inr (entry_line u (add_date_of parse now (opt_of_cell (created r))) u)"
  using assms
  by (auto simp: row_bookmark_def create_bookmark_html_def opt_of_cell_def add_date_of_def
           split: cell.splits)

theorem missing_title_falls_back_to_url_witness:
  \<open>title \<lparr>title = NaN, url = Str ''http://example.com/p'', folder = NaN, created = NaN\<rparr> = NaN
   \<and> row_bookmark iso_timestamp 1700000000
         \<lparr>title = NaN, url = Str ''http://example.com/p'', folder = NaN, created = NaN\<rparr>
       = Inr ''<DT><A HREF="http://example.com/p" ADD_DATE="1700000000">http://example.com/p</A>''\<close>
  using missing_title_falls_back_to_url
    [of "\<lparr>title = NaN, url = Str ''http://example.com/p'', folder = NaN, created = NaN\<rparr>"
        "''http://example.com/p''" iso_timestamp 1700000000]
  by (simp add: add_date_of_def opt_of_cell_def text_defs)

text \<open>
  Claim C2 as stated fails for a blank title: the row with a title of two spaces and the
  url \<open>http://example.com/p\<close> is rendered with the two spaces as visible text, not with
  the url.
\<close>

theorem blank_title_is_kept:
  \<open>row_bookmark iso_timestamp 1700000000
      \<lparr>title = Str ''  '', url = Str ''http://example.com/p'', folder = NaN, created = NaN\<rparr>
     = Inr ''<DT><A HREF="http://example.com/p" ADD_DATE="1700000000">  </A>''
   \<and> row_bookmark iso_timestamp 1700000000
      \<lparr>title = Str ''  '', url = Str ''http://example.com/p'', folder = NaN, created = NaN\<rparr>
     \<noteq> Inr (entry_line ''http://example.com/p'' 1700000000 ''http://example.com/p'')\<close>
  by (simp add: row_bookmark_def create_bookmark_html_def opt_of_cell_def add_date_of_def
        text_defs)

text \<open>
  Claim C6. For a row whose \<open>created\<close> cell is missing, is the empty string, or is a string
  that the parser rejects (a string of white space is one), the call of
  \<open>create_bookmark_html\<close> returns normally and the entry line carries the reading of the
  clock at the call. (Stated for rows with a url: a row without one fails in
  \<open>html.escape\<close>, whatever its timestamp.)
\<close>

theorem created_fallback_is_now:
  assumes "created r = NaN \<or> created r = Str [] \<or>
           (\<exists>c. created r = Str c \<and> parse (replace_Z c) = None)"
    and "url r = Str u"
  shows "row_bookmark parse now r =
           Inr (entry_line u now (case title r of NaN \<Rightarrow> u | Str t \<Rightarrow> t))"
  using assms
  by (auto simp: row_bookmark_def create_bookmark_html_def add_date_of_def opt_of_cell_def
           split: cell.splits)

theorem created_fallback_is_now_witness:
  \<open>iso_timestamp (replace_Z ''yesterday'') = None
   \<and> row_bookmark iso_timestamp 1700000000
         \<lparr>title = Str ''T'', url = Str ''http://x'', folder = NaN, created = Str ''yesterday''\<rparr>
       = Inr ''<DT><A HREF="http://x" ADD_DATE="1700000000">T</A>''\<close>
  using created_fallback_is_now
    [of "\<lparr>title = Str ''T'', url = Str ''http://x'', folder = NaN, created = Str ''yesterday''\<rparr>"
        iso_timestamp "''http://x''" 1700000000]
  by (simp add: iso_defs text_defs)


section \<open>Rendering of concrete trees\<close>

lemma tree_A_B:
  "create_folder_structure iso_timestamp clk ties
     \<lparr>columns = [''title'', ''url'', ''folder'', ''created''],
      rows = [\<lparr>title = Str ''T'', url = Str ''http://x'', folder = Str ''A/B'',
               created = Str ''2024-01-01T00:00:00Z''\<rparr>]\<rparr>
   = Inr (BookmarkFolder ''root''
            [(''A'', BookmarkFolder ''A''
                [(''B'', BookmarkFolder ''B'' [] [entry_line ''http://x'' 1704067200 ''T''])] [])] [])"
  by (simp add: build_defs iso_defs)

lemma html_A_B:
  \<open>generate_folder_html (BookmarkFolder ''root''
            [(''A'', BookmarkFolder ''A''
                [(''B'', BookmarkFolder ''B'' [] [entry_line ''http://x'' 1704067200 ''T''])] [])] []) 0
   = [''<DT><H3>A</H3>'',
      ''<DL><p>'',
      ''    <DT><H3>B</H3>'',
      ''    <DL><p>'',
      ''        <DT><A HREF="http://x" ADD_DATE="1704067200">T</A>'',
      ''    </DL><p>'',
      ''</DL><p>'']\<close>
  by (simp add: generate_folder_html.simps text_defs)

text \<open>
  Claim C5. The table with the one row (folder \<open>A/B\<close>, title \<open>T\<close>, url \<open>http://x\<close>,
  created \<open>2024-01-01T00:00:00Z\<close>) gives the document that consists of the header, the
  header line of \<open>A\<close> and its list, in it at one level of indentation the header line of
  \<open>B\<close> and its list, in it at two levels the entry line with \<open>ADD_DATE="1704067200"\<close>,
  the two closing lines, and the footer.
\<close>

theorem document_of_A_B:
  \<open>\<exists>t. create_folder_structure iso_timestamp clk ties
          \<lparr>columns = [''title'', ''url'', ''folder'', ''created''],
           rows = [\<lparr>title = Str ''T'', url = Str ''http://x'', folder = Str ''A/B'',
                    created = Str ''2024-01-01T00:00:00Z''\<rparr>]\<rparr> = Inr t
      \<and> generate_bookmarks_html t =
          join [CHR 0x0A]
            [header,
             ''<DT><H3>A</H3>'',
             ''<DL><p>'',
             ''    <DT><H3>B</H3>'',
             ''    <DL><p>'',
             ''        <DT><A HREF="http://x" ADD_DATE="1704067200">T</A>'',
             ''    </DL><p>'',
             ''</DL><p>'',
             footer]\<close>
  by (simp only: tree_A_B generate_bookmarks_html_def html_A_B sum.inject append.simps simp_thms ex_simps)

text \<open>
  A folder whose name is not \<open>root\<close> is rendered as a header line with the escaped name,
  a line that opens the list, the entries and then the children in the order of their
  lowercased names, all one level deeper, and a line that closes the list.
\<close>

lemma html_of_named_folder:
  assumes "n \<noteq> ''root''"
  shows "generate_folder_html (BookmarkFolder n subs bms) level =
           [indent level @ ''<DT><H3>'' @ escape n @ ''</H3>'', indent level @ ''<DL><p>'']
           @ map (\<lambda>bookmark. indent (level + 1) @ bookmark) bms
           @ concat (map (\<lambda>subfolder. generate_folder_html subfolder (level + 1))
                       (sort_key (\<lambda>x. lower (name x)) (map snd subs)))
           @ [indent level @ ''</DL><p>'']"
  using assms by (subst generate_folder_html.simps) (simp add: Let_def)

text \<open>
  Claim C4 at a folder that the user named \<open>root\<close>. The renderer recognises the root by
  its name, so this folder, a child of the root, gets no header line, no list and no
  deeper indentation: its entry is rendered as if it lay in the root.
\<close>

theorem folder_named_root_has_no_header:
  \<open>create_folder_structure iso_timestamp clk ties
     \<lparr>columns = [''title'', ''url'', ''folder'', ''created''],
      rows = [\<lparr>title = Str ''T'', url = Str ''http://x'', folder = Str ''root'',
               created = Str ''2024-01-01T00:00:00Z''\<rparr>]\<rparr>
   = Inr (BookmarkFolder ''root''
            [(''root'', BookmarkFolder ''root'' []
                 [''<DT><A HREF="http://x" ADD_DATE="1704067200">T</A>''])] [])
   \<and> generate_folder_html (BookmarkFolder ''root''
            [(''root'', BookmarkFolder ''root'' []
                 [''<DT><A HREF="http://x" ADD_DATE="1704067200">T</A>''])] []) 0
     = [''<DT><A HREF="http://x" ADD_DATE="1704067200">T</A>'']\<close>
  by (simp add: build_defs iso_defs generate_folder_html.simps text_defs)


section \<open>The folder count\<close>

lemma count_folders_paths: "count_folders t = length (folder_paths t)"
proof (induction t rule: folder_paths.induct)
  case (1 n subs bms)
  have "length kcs + sum_list (map (\<lambda>(k, c). count_folders c) kcs) =
        length (concat (map (\<lambda>kc. [fst kc] # map ((#) (fst kc)) (folder_paths (snd kc))) kcs))"
    if "set kcs \<subseteq> set subs" for kcs
    using that
  proof (induction kcs)
    case Nil
    then show ?case by simp
  next
    case (Cons kc kcs)
    then have "kc \<in> set subs" by simp
    from 1 [OF this] Cons show ?case by (cases kc) simp
  qed
  from this [of subs] show ?case by simp
qed

lemma folder_paths_nonempty: "[] \<notin> set (folder_paths t)"
  by (cases t) auto

lemma set_folder_paths:
  "tree_inv P t \<Longrightarrow> set (folder_paths t) = {p. p \<noteq> [] \<and> folder_at p t \<noteq> None}"
proof (induction t rule: folder_paths.induct)
  case (1 n subs bms)
  from "1.prems" have d: "distinct (map fst subs)"
    and inv: "\<And>kc. kc \<in> set subs \<Longrightarrow> tree_inv P (snd kc)"
    by (auto simp: list_all_iff)
  have ih: "set (folder_paths c) = {p. p \<noteq> [] \<and> folder_at p c \<noteq> None}"
    if "(k, c) \<in> set subs" for k c
    using "1.IH" [OF that] inv [OF that] by simp
  show ?case
  proof (rule set_eqI)
    fix p
    show "p \<in> set (folder_paths (BookmarkFolder n subs bms)) \<longleftrightarrow>
          p \<in> {p. p \<noteq> [] \<and> folder_at p (BookmarkFolder n subs bms) \<noteq> None}"
    proof (cases p)
      case Nil
      then show ?thesis by auto
    next
      case (Cons k q)
      have "p \<in> set (folder_paths (BookmarkFolder n subs bms)) \<longleftrightarrow>
            (\<exists>c. (k, c) \<in> set subs \<and> (q = [] \<or> q \<in> set (folder_paths c)))"
        using Cons by (force simp: image_iff)
      also have "\<dots> \<longleftrightarrow> (\<exists>c. (k, c) \<in> set subs \<and> folder_at q c \<noteq> None)"
        using ih by (cases q) auto
      also have "\<dots> \<longleftrightarrow> folder_at p (BookmarkFolder n subs bms) \<noteq> None"
        using Cons d by (auto split: option.splits dest: eq_key_imp_eq_value)
      finally show ?thesis using Cons by simp
    qed
  qed
qed

lemma distinct_folder_paths: "tree_inv P t \<Longrightarrow> distinct (folder_paths t)"
proof (induction t rule: folder_paths.induct)
  case (1 n subs bms)
  from "1.prems" have d: "distinct (map fst subs)"
    and inv: "\<And>kc. kc \<in> set subs \<Longrightarrow> tree_inv P (snd kc)"
    by (auto simp: list_all_iff)
  have "distinct (concat (map (\<lambda>kc. [fst kc] # map ((#) (fst kc)) (folder_paths (snd kc))) kcs))"
    if "set kcs \<subseteq> set subs" "distinct (map fst kcs)" for kcs
    using that
  proof (induction kcs)
    case Nil
    then show ?case by simp
  next
    case (Cons kc kcs)
    then have m: "kc \<in> set subs" by simp
    from "1.IH" [OF m] inv [OF m] have "distinct (folder_paths (snd kc))" by simp
    then have "distinct (map ((#) (fst kc)) (folder_paths (snd kc)))"
      by (simp add: distinct_map)
    moreover have "[fst kc] \<notin> (#) (fst kc) ` set (folder_paths (snd kc))"
      using folder_paths_nonempty [of "snd kc"] by auto
    moreover from Cons.prems(2) have "fst kc \<notin> fst ` set kcs" by simp
    then have "\<forall>kc'\<in>set kcs. fst kc' \<noteq> fst kc" by (metis imageI)
    ultimately show ?case using Cons by auto
  qed
  from this [of subs] d show ?case by simp
qed

lemma count_folders_nodes:
  assumes "create_folder_structure parse clock ties df = Inr t"
  shows "count_folders t = card {p. p \<noteq> [] \<and> folder_at p t \<noteq> None}"
proof -
  note inv = built_inv [OF assms]
  have "count_folders t = card (set (folder_paths t))"
    by (simp add: count_folders_paths distinct_card distinct_folder_paths [OF inv])
  then show ?thesis by (simp add: set_folder_paths [OF inv])
qed

text \<open>
  Claim C8. When the run reads a table, builds the tree \<open>t\<close> and writes the document
  rendered from \<open>t\<close>, it returns normally, the document of \<open>t\<close> is what it wrote, and the
  last of the three lines it prints is \<open>Number of folders:\<close> followed by the number of
  nodes of \<open>t\<close> other than the root, that is, the number of non-empty paths from the root
  that lead to a node; this number is \<open>count_folders\<close> of the root.
\<close>

theorem reported_folder_count_is_number_of_nodes:
  assumes "read_csv w input_csv = Inr df"
    and "create_folder_structure (fromisoformat w) (wall_clock w) (tie_order w) df = Inr t"
    and "write_file w output_file (generate_bookmarks_html t) = None"
  shows "count_folders t = card {p. p \<noteq> [] \<and> folder_at p t \<noteq> None}
         \<and> convert_raindrop_to_browser_bookmarks w input_csv output_file =
             Inr \<lparr>printed =
                    [''Successfully converted bookmarks to '' @ output_file,
                     ''Total bookmarks processed: '' @ str_int (int (length (rows df))),
                     ''Number of folders: '' @
                       str_int (int (card {p. p \<noteq> [] \<and> folder_at p t \<noteq> None}))],
                  written = Some (generate_bookmarks_html t)\<rparr>"
proof -
  note n = count_folders_nodes [OF assms(2)]
  have "convert_body w input_csv output_file =
          Inr ([''Successfully converted bookmarks to '' @ output_file,
                ''Total bookmarks processed: '' @ str_int (int (length (rows df))),
                ''Number of folders: '' @ str_int (int (count_folders t))],
               generate_bookmarks_html t)"
    using assms by (simp add: convert_body_def)
  then show ?thesis
    by (simp add: convert_raindrop_to_browser_bookmarks_def n)
qed

theorem reported_folder_count_is_number_of_nodes_witness:
  "convert_raindrop_to_browser_bookmarks
        \<lparr>read_csv = (\<lambda>p. Inr \<lparr>columns = [''title'', ''url'', ''folder'', ''created''],
            rows = [\<lparr>title = Str ''T'', url = Str ''http://x'', folder = Str ''A/B'',
                     created = Str ''2024-01-01T00:00:00Z''\<rparr>]\<rparr>),
         write_file = (\<lambda>p t. None), fromisoformat = iso_timestamp,
         wall_clock = (\<lambda>i. 1700000000), tie_order = []\<rparr>
        ''Backups.csv'' ''bookmarks.html''
   = Inr \<lparr>printed =
            [''Successfully converted bookmarks to bookmarks.html'',
             ''Total bookmarks processed: 1'',
             ''Number of folders: 2''],
          written = Some (generate_bookmarks_html
        (BookmarkFolder ''root''
          [(''A'', BookmarkFolder ''A''
              [(''B'', BookmarkFolder ''B'' [] [entry_line ''http://x'' 1704067200 ''T''])] [])] []))\<rparr>"
proof -
  let ?w = "\<lparr>read_csv = (\<lambda>p. Inr \<lparr>columns = [''title'', ''url'', ''folder'', ''created''],
            rows = [\<lparr>title = Str ''T'', url = Str ''http://x'', folder = Str ''A/B'',
                     created = Str ''2024-01-01T00:00:00Z''\<rparr>]\<rparr>),
         write_file = (\<lambda>p t. None), fromisoformat = iso_timestamp,
         wall_clock = (\<lambda>i. 1700000000), tie_order = []\<rparr>"
  let ?t = "(BookmarkFolder ''root''
          [(''A'', BookmarkFolder ''A''
              [(''B'', BookmarkFolder ''B'' [] [entry_line ''http://x'' 1704067200 ''T''])] [])] [])"
  have r: "read_csv ?w ''Backups.csv'' =
      Inr \<lparr>columns = [''title'', ''url'', ''folder'', ''created''],
            rows = [\<lparr>title = Str ''T'', url = Str ''http://x'', folder = Str ''A/B'',
                     created = Str ''2024-01-01T00:00:00Z''\<rparr>]\<rparr>"
    by simp
  have b: "create_folder_structure (fromisoformat ?w) (wall_clock ?w) (tie_order ?w)
      \<lparr>columns = [''title'', ''url'', ''folder'', ''created''],
            rows = [\<lparr>title = Str ''T'', url = Str ''http://x'', folder = Str ''A/B'',
                     created = Str ''2024-01-01T00:00:00Z''\<rparr>]\<rparr> = Inr ?t"
    using tree_A_B [of "\<lambda>i. 1700000000" "[]"] by simp
  have wr: "write_file ?w ''bookmarks.html'' (generate_bookmarks_html ?t) = None"
    by simp
  have c: "count_folders ?t = 2" by simp
  from reported_folder_count_is_number_of_nodes [OF r b wr] c
  have "card {p. p \<noteq> [] \<and> folder_at p ?t \<noteq> None} = 2"
    and "convert_raindrop_to_browser_bookmarks ?w ''Backups.csv'' ''bookmarks.html'' =
           Inr \<lparr>printed =
                  [''Successfully converted bookmarks to '' @ ''bookmarks.html'',
                   ''Total bookmarks processed: '' @ str_int (int (length
                      [\<lparr>title = Str ''T'', url = Str ''http://x'', folder = Str ''A/B'',
                        created = Str ''2024-01-01T00:00:00Z''\<rparr>])),
                   ''Number of folders: '' @
                     str_int (int (card {p. p \<noteq> [] \<and> folder_at p ?t \<noteq> None}))],
                written = Some (generate_bookmarks_html ?t)\<rparr>"
    by simp_all
  then show ?thesis
    by (simp add: str_int_def str_nat.simps digit_char_def)
qed


section \<open>Balance of the list tags\<close>

lemma tagged_simps [simp]:
  "tagged tag [] = 0"
  "tagged tag (x # xs) = lines_with tag x + tagged tag xs"
  "tagged tag (xs @ ys) = tagged tag xs + tagged tag ys"
  by (simp_all add: tagged_def)

lemma tagged_concat: "tagged tag (concat xss) = sum_list (map (tagged tag) xss)"
  by (induction xss) simp_all

lemma split_on_nonempty: "split_on c s \<noteq> []"
  by (induction s) (auto split: list.splits)

lemma split_on_sep: "split_on c (x @ c # y) = split_on c x @ split_on c y"
proof (induction x)
  case Nil
  then show ?case by simp
next
  case (Cons a x)
  then show ?case
    using split_on_nonempty [of c x] by (auto split: list.splits)
qed

lemma split_on_join:
  "xs \<noteq> [] \<Longrightarrow> split_on c (join [c] xs) = concat (map (split_on c) xs)"
  by (induction "[c]" xs rule: join.induct) (simp_all add: split_on_sep)

lemma lines_with_join:
  "xs \<noteq> [] \<Longrightarrow> lines_with tag (join [CHR 0x0A] xs) = tagged tag xs"
  by (simp add: lines_with_def [abs_def] tagged_def split_on_join filter_concat length_concat
        comp_def)

lemma split_on_first_prefix: "split_on c s = w # ws \<Longrightarrow> prefix w s"
  by (induction s arbitrary: w ws) (auto split: if_splits list.splits)

lemma split_on_piece: "l \<in> set (split_on c s) \<Longrightarrow> sublist l s"
proof (induction s arbitrary: l)
  case Nil
  then show ?case by simp
next
  case (Cons x s)
  show ?case
  proof (cases "x = c")
    case True
    with Cons show ?thesis by (auto simp: sublist_Cons_right)
  next
    case False
    obtain w ws where w: "split_on c s = w # ws"
      using split_on_nonempty [of c s] by (cases "split_on c s") auto
    with Cons.prems False have "l = x # w \<or> l \<in> set ws" by simp
    then show ?thesis
    proof
      assume "l = x # w"
      with split_on_first_prefix [OF w] show ?thesis by simp
    next
      assume "l \<in> set ws"
      with w Cons.IH [of l] show ?thesis by (simp add: sublist_Cons_right)
    qed
  qed
qed

lemma lines_with_none: "\<not> sublist tag s \<Longrightarrow> lines_with tag s = 0"
proof -
  assume n: "\<not> sublist tag s"
  have "\<not> sublist tag l" if "l \<in> set (split_on (CHR 0x0A) s)" for l
    using split_on_piece [OF that] n sublist_order.order.trans by blast
  then show ?thesis by (simp add: lines_with_def filter_empty_conv)
qed

lemma lines_with_one_line:
  "CHR 0x0A \<notin> set s \<Longrightarrow> lines_with tag s = (if sublist tag s then 1 else 0)"
  by (simp add: lines_with_def split_on_absent)

lemma skip_no_lt:
  "CHR ''<'' \<notin> set xs \<Longrightarrow> sublist (CHR ''<'' # r) (xs @ ys) = sublist (CHR ''<'' # r) ys"
  by (induction xs) (auto simp: sublist_Cons_right)

lemma no_lt_escape: "CHR ''<'' \<notin> set (escape s)"
  by (induction s) (auto simp: escape_def escape_char_def)

lemma no_lt_indent: "CHR ''<'' \<notin> set (indent l)"
  by (induction l) (auto simp: indent_def)

lemma no_nl_indent: "CHR 0x0A \<notin> set (indent l)"
  by (induction l) (auto simp: indent_def)

lemma str_nat_digits: "set (str_nat n) \<subseteq> set ''0123456789''"
proof (induction n rule: str_nat.induct)
  case (1 n)
  have d: "digit_char k \<in> set ''0123456789''" if "k < 10" for k
    unfolding digit_char_def using that nth_mem [of k "''0123456789''"] by simp
  show ?case
  proof (cases "n < 10")
    case True
    then show ?thesis using d [of n] by (subst str_nat.simps) simp
  next
    case False
    with 1 d [of "n mod 10"] show ?thesis by (subst str_nat.simps) auto
  qed
qed

lemma no_lt_str_int: "CHR ''<'' \<notin> set (str_int i)"
  using str_nat_digits [of "nat i"] str_nat_digits [of "nat (- i)"]
  by (auto simp: str_int_def)


lemmas scan = sublist_Cons_right skip_no_lt no_lt_escape no_lt_indent no_lt_str_int

lemma entry_line_no_tag:
  "\<not> sublist ''<DL><p>'' (indent l @ entry_line u d x)"
  "\<not> sublist ''</DL><p>'' (indent l @ entry_line u d x)"
  by (simp_all add: entry_line_def scan)

lemma folder_header_no_tag:
  "\<not> sublist ''<DL><p>'' (indent l @ ''<DT><H3>'' @ escape n @ ''</H3>'')"
  "\<not> sublist ''</DL><p>'' (indent l @ ''<DT><H3>'' @ escape n @ ''</H3>'')"
  by (simp_all add: scan)

lemma list_open_line:
  "lines_with ''<DL><p>'' (indent l @ ''<DL><p>'') = 1"
  "lines_with ''</DL><p>'' (indent l @ ''<DL><p>'') = 0"
  by (simp_all add: lines_with_one_line no_nl_indent scan)

lemma list_close_line:
  "lines_with ''<DL><p>'' (indent l @ ''</DL><p>'') = 0"
  "lines_with ''</DL><p>'' (indent l @ ''</DL><p>'') = 1"
  by (simp_all add: lines_with_one_line no_nl_indent scan)

lemma header_tags: "lines_with ''<DL><p>'' header = 1" "lines_with ''</DL><p>'' header = 0"
  by (simp_all add: lines_with_def header_def sublist_Cons_right)

lemma footer_tags: "lines_with ''<DL><p>'' footer = 0" "lines_with ''</DL><p>'' footer = 1"
  by (simp_all add: lines_with_def footer_def sublist_Cons_right)

lemma tagged_entries:
  assumes "list_all (\<lambda>b. \<exists>u d x. b = entry_line u d x) bms"
  shows "tagged ''<DL><p>'' (map (\<lambda>bookmark. indent l @ bookmark) bms) = 0"
    and "tagged ''</DL><p>'' (map (\<lambda>bookmark. indent l @ bookmark) bms) = 0"
  using assms by (induction bms) (auto simp: lines_with_none entry_line_no_tag)

lemma folder_html_balanced:
  "tree_inv (\<lambda>b. \<exists>u d x. b = entry_line u d x) t \<Longrightarrow>
   tagged ''<DL><p>'' (generate_folder_html t level) =
   tagged ''</DL><p>'' (generate_folder_html t level)"
proof (induction t level rule: generate_folder_html.induct)
  case (1 n subs bms level)
  let ?level = "if n \<noteq> ''root'' then level + 1 else level"
  let ?kids = "sort_key (\<lambda>x. lower (name x)) (map snd subs)"
  from "1.prems" have bms: "list_all (\<lambda>b. \<exists>u d x. b = entry_line u d x) bms"
    and inv: "\<And>c. c \<in> set ?kids \<Longrightarrow> tree_inv (\<lambda>b. \<exists>u d x. b = entry_line u d x) c"
    by (auto simp: list_all_iff)
  have ih: "tagged ''<DL><p>'' (generate_folder_html c ?level) =
        tagged ''</DL><p>'' (generate_folder_html c ?level)" if "c \<in> set ?kids" for c
    using "1.IH" [OF refl refl refl that] inv [OF that] by simp
  have kids: "sum_list (map (\<lambda>c. tagged ''<DL><p>'' (generate_folder_html c ?level)) ?kids) =
        sum_list (map (\<lambda>c. tagged ''</DL><p>'' (generate_folder_html c ?level)) ?kids)"
    by (rule arg_cong [where f = sum_list], rule map_cong [OF refl], rule ih)
  show ?case
  proof (cases "n = ''root''")
    case True
    with kids have "sum_list (map (\<lambda>c. tagged ''<DL><p>'' (generate_folder_html c level)) ?kids) =
        sum_list (map (\<lambda>c. tagged ''</DL><p>'' (generate_folder_html c level)) ?kids)"
      by simp
    with True show ?thesis
      by (subst (1 2) generate_folder_html.simps)
         (simp add: Let_def tagged_concat comp_def tagged_entries [OF bms])
  next
    case False
    with kids have "sum_list (map (\<lambda>c. tagged ''<DL><p>'' (generate_folder_html c (Suc level))) ?kids) =
        sum_list (map (\<lambda>c. tagged ''</DL><p>'' (generate_folder_html c (Suc level))) ?kids)"
      by simp
    with False show ?thesis
      by (subst (1 2) generate_folder_html.simps)
         (simp add: Let_def tagged_concat comp_def tagged_entries [OF bms] lines_with_none
            lines_with_one_line no_nl_indent scan)
  qed
qed

text \<open>
  Claim C10. In the document rendered from a tree that the builder made, the number of
  lines that contain \<open><DL><p>\<close> equals the number of lines that contain \<open></DL><p>\<close>.
  (The entries of such a tree are entry lines, whose texts are escaped; header and footer
  give one pair, and every folder whose name is not \<open>root\<close> gives one pair.)
\<close>

theorem document_is_list_balanced:
  assumes "create_folder_structure parse clock ties df = Inr t"
  shows "lines_with ''<DL><p>'' (generate_bookmarks_html t) =
         lines_with ''</DL><p>'' (generate_bookmarks_html t)"
  using folder_html_balanced [OF built_inv [OF assms], of 0]
  by (simp add: generate_bookmarks_html_def lines_with_join header_tags footer_tags)

theorem document_is_list_balanced_witness:
  "create_folder_structure iso_timestamp (\<lambda>i. 1700000000) []
       \<lparr>columns = [''title'', ''url'', ''folder'', ''created''],
        rows = [\<lparr>title = Str ''T'', url = Str ''http://x'', folder = Str ''A/B'',
                 created = Str ''2024-01-01T00:00:00Z''\<rparr>]\<rparr>
     = Inr (BookmarkFolder ''root''
          [(''A'', BookmarkFolder ''A''
              [(''B'', BookmarkFolder ''B'' [] [entry_line ''http://x'' 1704067200 ''T''])] [])] [])
   \<and> lines_with ''<DL><p>'' (generate_bookmarks_html (BookmarkFolder ''root''
          [(''A'', BookmarkFolder ''A''
              [(''B'', BookmarkFolder ''B'' [] [entry_line ''http://x'' 1704067200 ''T''])] [])] []))
     = lines_with ''</DL><p>'' (generate_bookmarks_html (BookmarkFolder ''root''
          [(''A'', BookmarkFolder ''A''
              [(''B'', BookmarkFolder ''B'' [] [entry_line ''http://x'' 1704067200 ''T''])] [])] []))"
  using document_is_list_balanced [OF tree_A_B [of "\<lambda>i. 1700000000" "[]"]]
    tree_A_B [of "\<lambda>i. 1700000000" "[]"]
  by blast


section \<open>Failures of the run\<close>

text \<open>
  Claim C9. Whenever a step of the run fails (reading the table raises, building the tree
  raises on a malformed table, or writing the output raises), the call returns normally,
  and the only line it prints is \<open>Error converting bookmarks:\<close> followed by the text of the
  exception.
\<close>

theorem failure_is_reported_not_raised:
  assumes "read_csv w input_csv = Inl e
           \<or> (\<exists>df. read_csv w input_csv = Inr df
                  \<and> create_folder_structure (fromisoformat w) (wall_clock w) (tie_order w) df = Inl e)
           \<or> (\<exists>df t. read_csv w input_csv = Inr df
                  \<and> create_folder_structure (fromisoformat w) (wall_clock w) (tie_order w) df = Inr t
                  \<and> write_file w output_file (generate_bookmarks_html t) = Some e)"
  shows "\<exists>out. convert_raindrop_to_browser_bookmarks w input_csv output_file = Inr out
           \<and> printed out = [''Error converting bookmarks: '' @ str_error e]"
  using assms
  by (auto simp: convert_raindrop_to_browser_bookmarks_def convert_body_def)

theorem failure_is_reported_not_raised_witness:
  "map_sum id printed
     (convert_raindrop_to_browser_bookmarks
        \<lparr>read_csv = (\<lambda>p. Inr \<lparr>columns = [''title'', ''url''], rows = []\<rparr>),
         write_file = (\<lambda>p t. None), fromisoformat = iso_timestamp,
         wall_clock = (\<lambda>i. 1700000000), tie_order = []\<rparr>
        ''Backups.csv'' ''bookmarks.html'')
   = Inr [''Error converting bookmarks: '' @ CHR 0x27 # ''folder'' @ [CHR 0x27]]"
  using failure_is_reported_not_raised
    [of "\<lparr>read_csv = (\<lambda>p. Inr \<lparr>columns = [''title'', ''url''], rows = []\<rparr>),
          write_file = (\<lambda>p t. None), fromisoformat = iso_timestamp,
          wall_clock = (\<lambda>i. 1700000000), tie_order = []\<rparr>"
        "''Backups.csv''" "KeyError ''folder''" "''bookmarks.html''"]
  by (auto simp: create_folder_structure_def str_error_def)

end
